theory Spec2Isabelle
  imports Complex_Main
begin

section \<open>Texts\<close>

text \<open>
  A Python \<open>str\<close> is modelled as a \<open>string\<close>: one \<open>char\<close> per code point, read as
  the code points below 256. Slices such as \<open>s[:200]\<close> are \<open>take 200 s\<close>.
\<close>

definition chr_code :: "char \<Rightarrow> nat" where
  "chr_code c = of_char c"

fun starts_with :: "string \<Rightarrow> string \<Rightarrow> bool" where
  "starts_with s [] = True"
| "starts_with [] (p # ps) = False"
| "starts_with (c # s) (p # ps) = (c = p \<and> starts_with s ps)"

text \<open>\<open>contains sub s\<close> is Python's \<open>sub in s\<close> on two texts.\<close>

fun contains :: "string \<Rightarrow> string \<Rightarrow> bool" where
  "contains sub [] = (sub = [])"
| "contains sub (c # s) = (starts_with (c # s) sub \<or> contains sub s)"

definition digit_char :: "nat \<Rightarrow> char" where
  "digit_char d = ''0123456789'' ! d"

fun str_nat :: "nat \<Rightarrow> string" where
  "str_nat n = (if n < 10 then [digit_char n] else str_nat (n div 10) @ [digit_char (n mod 10)])"

declare str_nat.simps [simp del]

text \<open>\<open>str_int n\<close> is Python's \<open>str(n)\<close> of an integer, as an f-string renders it.\<close>

definition str_int :: "int \<Rightarrow> string" where
  "str_int n = (if n < 0 then CHR ''-'' # str_nat (nat (- n)) else str_nat (nat n))"

text \<open>
  \<open>str_upper s\<close> is \<open>s.upper()\<close>: the ASCII letters and the Latin-1 letters
  \<open>0xE0..0xFE\<close> (without the division sign \<open>0xF7\<close>) move to their capitals and the
  sharp s \<open>0xDF\<close> becomes \<open>SS\<close>. The capitals of \<open>0xB5\<close> and \<open>0xFF\<close> lie above 255;
  these two characters are left as they are.
\<close>

definition lower_letters :: string where
  "lower_letters = ''abcdefghijklmnopqrstuvwxyz'' @
     [CHR 0xE0, CHR 0xE1, CHR 0xE2, CHR 0xE3, CHR 0xE4, CHR 0xE5, CHR 0xE6, CHR 0xE7,
      CHR 0xE8, CHR 0xE9, CHR 0xEA, CHR 0xEB, CHR 0xEC, CHR 0xED, CHR 0xEE, CHR 0xEF,
      CHR 0xF0, CHR 0xF1, CHR 0xF2, CHR 0xF3, CHR 0xF4, CHR 0xF5, CHR 0xF6,
      CHR 0xF8, CHR 0xF9, CHR 0xFA, CHR 0xFB, CHR 0xFC, CHR 0xFD, CHR 0xFE]"

definition upper_letters :: string where
  "upper_letters = ''ABCDEFGHIJKLMNOPQRSTUVWXYZ'' @
     [CHR 0xC0, CHR 0xC1, CHR 0xC2, CHR 0xC3, CHR 0xC4, CHR 0xC5, CHR 0xC6, CHR 0xC7,
      CHR 0xC8, CHR 0xC9, CHR 0xCA, CHR 0xCB, CHR 0xCC, CHR 0xCD, CHR 0xCE, CHR 0xCF,
      CHR 0xD0, CHR 0xD1, CHR 0xD2, CHR 0xD3, CHR 0xD4, CHR 0xD5, CHR 0xD6,
      CHR 0xD8, CHR 0xD9, CHR 0xDA, CHR 0xDB, CHR 0xDC, CHR 0xDD, CHR 0xDE]"

definition upper_char :: "char \<Rightarrow> string" where
  "upper_char c =
     (if c = CHR 0xDF then ''SS''
      else case map_of (zip lower_letters upper_letters) c of
             Some u \<Rightarrow> [u]
           | None \<Rightarrow> [c])"

definition str_upper :: "string \<Rightarrow> string" where
  "str_upper s = concat (map upper_char s)"

section \<open>The resilient upstream client (ralf_proxy.py)\<close>

text \<open>
  The four settings are read from the environment when the module is loaded;
  \<open>default_config\<close> holds the values used when a variable is unset. The delays are
  floats in the source and are modelled as real numbers: rounding, infinities and
  not-a-number values are outside the model.
\<close>

record config =
  MAX_RETRIES :: int
  BASE_DELAY :: real
  MAX_DELAY :: real
  JITTER_RANGE :: real

definition default_config :: config where
  "default_config = \<lparr>MAX_RETRIES = 5, BASE_DELAY = 2, MAX_DELAY = 60, JITTER_RANGE = 1 / 2\<rparr>"

text \<open>
  What the upstream does at one request. A response has a status code and a body; reading
  the body as \<open>response.text\<close> gives its text or fails with a
  \<open>requests.RequestException\<close> (connection broken while the body arrives). Without a
  response the request itself raises a \<open>requests.RequestException\<close>.
\<close>

datatype body_read = Body string | BodyError string

datatype post_outcome = Response int body_read | RequestException string

text \<open>
  \<open>requests.post(..., stream=stream)\<close>: unless \<open>stream\<close> is set the body is read inside
  the request, so that a body that cannot be read makes the request raise; with \<open>stream\<close>
  set the response is returned with its body unread.
\<close>

definition do_post :: "bool \<Rightarrow> post_outcome \<Rightarrow> post_outcome" where
  "do_post stream out =
     (case out of
        Response sc (BodyError e) \<Rightarrow> if stream then out else RequestException e
      | Response sc (Body t) \<Rightarrow> out
      | RequestException e \<Rightarrow> out)"

text \<open>The error dictionary \<open>{"error": ..., "status_code": ...}\<close>.\<close>

record error_dict =
  error :: string
  status_code :: int

text \<open>
  The exception that leaves the function: the \<open>OverflowError\<close> of the conversion of
  \<open>2**attempt\<close> to a float, or of \<open>time.sleep\<close> on a duration it does not accept.
\<close>

datatype call_exn = OverflowError

text \<open>
  How a call ends: \<open>returned\<close> is the pair \<open>(response, error)\<close> handed back (\<open>Inr\<close>) or
  the exception raised (\<open>Inl\<close>). Two observations of the call's effects go with it: how
  many requests were posted and the arguments of the completed \<open>time.sleep\<close> calls.
\<close>

record call_result =
  returned :: "call_exn + ((int \<times> body_read) option \<times> error_dict option)"
  attempts :: nat
  slept :: "real list"

text \<open>
  Line 81: \<open>min(MAX_DELAY, BASE_DELAY * (2**attempt))\<close>. The integer \<open>2**attempt\<close> is
  converted to a float for the product, which raises from \<open>2**1024\<close> on.
\<close>

definition backoff_delay :: "config \<Rightarrow> nat \<Rightarrow> call_exn + real" where
  "backoff_delay cfg attempt =
     (if 1024 \<le> attempt then Inl OverflowError
      else Inr (min (MAX_DELAY cfg) (BASE_DELAY cfg * 2 ^ attempt)))"

definition jitter_of :: "config \<Rightarrow> real \<Rightarrow> real \<Rightarrow> real" where
  "jitter_of cfg delay u = delay * JITTER_RANGE cfg * (u * 2 - 1)"

text \<open>\<open>u\<close> is the value drawn by \<open>random.random()\<close>.\<close>

definition final_delay :: "config \<Rightarrow> nat \<Rightarrow> real \<Rightarrow> call_exn + real" where
  "final_delay cfg attempt u =
     (case backoff_delay cfg attempt of
        Inl x \<Rightarrow> Inl x
      | Inr delay \<Rightarrow> Inr (max (1 / 2) (delay + jitter_of cfg delay u)))"

definition client_error_msg :: "int \<Rightarrow> string \<Rightarrow> string" where
  "client_error_msg sc txt = ''Error cliente RALF: '' @ str_int sc @ '' - '' @ txt"

definition temporary_error_msg :: "int \<Rightarrow> string \<Rightarrow> string" where
  "temporary_error_msg sc txt = ''Error temporal RALF: '' @ str_int sc @ '' - '' @ take 200 txt"

definition connection_error_msg :: "string \<Rightarrow> string" where
  "connection_error_msg e =
     ''Excepci'' @ [CHR 0xF3] @ ''n conexi'' @ [CHR 0xF3] @ ''n RALF: '' @ e"

definition connection_error :: "string \<Rightarrow> error_dict" where
  "connection_error e = \<lparr>error = connection_error_msg e, status_code = 503\<rparr>"

text \<open>
  The \<open>try\<close> block of one attempt with its \<open>except\<close> clause: the pair to return at once,
  or the error to remember before backing off. The body of a response is read where the
  source reads \<open>response.text\<close>, inside the \<open>try\<close>: not for a status in the success range,
  and for any other status, where a failing read is caught like a failing request.
\<close>

datatype attempt_result =
    Done "(int \<times> body_read) option \<times> error_dict option"
  | Retry error_dict

definition try_once :: "bool \<Rightarrow> post_outcome \<Rightarrow> attempt_result" where
  "try_once stream out =
     (case do_post stream out of
        Response sc b \<Rightarrow>
          if 200 \<le> sc \<and> sc < 300 then Done (Some (sc, b), None)
          else if 400 \<le> sc \<and> sc < 500 \<and> sc \<noteq> 429 then
            (case b of
               Body t \<Rightarrow> Done (None, Some \<lparr>error = client_error_msg sc t, status_code = sc\<rparr>)
             | BodyError e \<Rightarrow> Retry (connection_error e))
          else
            (case b of
               Body t \<Rightarrow> Retry \<lparr>error = temporary_error_msg sc t, status_code = sc\<rparr>
             | BodyError e \<Rightarrow> Retry (connection_error e))
      | RequestException e \<Rightarrow> Retry (connection_error e))"

text \<open>
  Lines 81 to 89, after the \<open>try\<close> statement and so outside it: the delay is always
  computed, the sleep is skipped after the last attempt. \<open>sleep_accepts d\<close> says that
  \<open>time.sleep(d)\<close> returns; on a duration too large for the platform it raises instead.
\<close>

definition sleep_after ::
  "(real \<Rightarrow> bool) \<Rightarrow> config \<Rightarrow> nat \<Rightarrow> real \<Rightarrow> real list \<Rightarrow> call_exn + real list" where
  "sleep_after sleep_accepts cfg attempt u sl =
     (case final_delay cfg attempt u of
        Inl x \<Rightarrow> Inl x
      | Inr d \<Rightarrow>
          if int attempt < MAX_RETRIES cfg - 1 then
            (if sleep_accepts d then Inr (sl @ [d]) else Inl OverflowError)
          else Inr sl)"

text \<open>
  The loop \<open>for attempt in range(MAX_RETRIES)\<close>. \<open>post attempt\<close> is what the upstream
  does at the request of that attempt and \<open>rnd attempt\<close> the random draw of that attempt.
\<close>

function retry_loop ::
  "(real \<Rightarrow> bool) \<Rightarrow> config \<Rightarrow> bool \<Rightarrow> (nat \<Rightarrow> post_outcome) \<Rightarrow> (nat \<Rightarrow> real)
     \<Rightarrow> nat \<Rightarrow> error_dict option \<Rightarrow> real list \<Rightarrow> call_result" where
  "retry_loop sleep_accepts cfg stream post rnd attempt last_error sl =
     (if int attempt < MAX_RETRIES cfg then
        (case try_once stream (post attempt) of
           Done pair \<Rightarrow> \<lparr>returned = Inr pair, attempts = attempt + 1, slept = sl\<rparr>
         | Retry e \<Rightarrow>
             (case sleep_after sleep_accepts cfg attempt (rnd attempt) sl of
                Inl x \<Rightarrow> \<lparr>returned = Inl x, attempts = attempt + 1, slept = sl\<rparr>
              | Inr sl' \<Rightarrow>
                  retry_loop sleep_accepts cfg stream post rnd (attempt + 1) (Some e) sl'))
      else \<lparr>returned = Inr (None, last_error), attempts = attempt, slept = sl\<rparr>)"
  by pat_completeness auto
termination
  by (relation "measure (\<lambda>(acc, cfg, stream, post, rnd, attempt, last_error, sl).
        nat (MAX_RETRIES cfg - int attempt))")
     auto

declare retry_loop.simps [simp del]

definition call_ralf_with_retry ::
  "(real \<Rightarrow> bool) \<Rightarrow> config \<Rightarrow> bool \<Rightarrow> (nat \<Rightarrow> post_outcome) \<Rightarrow> (nat \<Rightarrow> real) \<Rightarrow> call_result" where
  "call_ralf_with_retry sleep_accepts cfg stream post rnd =
     retry_loop sleep_accepts cfg stream post rnd 0 None []"

section \<open>The pipeline orchestrator (src/crew.py, NewsCrew.run)\<close>

text \<open>
  The three stages are calls to an external text generator. Each stage builds its agent,
  task and crew, publishes its start event and then calls \<open>kickoff\<close>. Its outcome is an
  exception raised while building (\<open>SetupError\<close>, before the start event), an exception
  raised by \<open>kickoff\<close> (\<open>RunError\<close>, after the start event), each with the text of the
  exception, or the output as text. A stage is given the number of the iteration that
  calls it and the texts handed to it.
\<close>

datatype outcome = SetupError string | RunError string | Output string

record workers =
  investigate :: "nat \<Rightarrow> string \<Rightarrow> outcome"
  analyse :: "nat \<Rightarrow> string \<Rightarrow> outcome"
  write_article :: "nat \<Rightarrow> string \<Rightarrow> string \<Rightarrow> outcome"

text \<open>The returned dictionary: keys in the order of the literal, values texts or integers.\<close>

datatype pyval = PStr string | PInt int

type_synonym result_dict = "(string \<times> pyval) list"

definition dict_get :: "result_dict \<Rightarrow> string \<Rightarrow> pyval option" where
  "dict_get d k = map_of d k"

text \<open>
  The events published through the callback handler (src/callbacks.py), each with the
  payload fields that depend on the run, truncated as the handler truncates them.
\<close>

datatype event =
    AgentStart string string
  | AgentFinish string string
  | BacktrackEvent string
  | CrewFinish string
  | ErrorEvent string

definition on_agent_start :: "string \<Rightarrow> string \<Rightarrow> event list \<Rightarrow> event list" where
  "on_agent_start agent_name task_description tr =
     tr @ [AgentStart agent_name (take 200 task_description)]"

definition on_agent_finish :: "string \<Rightarrow> string \<Rightarrow> event list \<Rightarrow> event list" where
  "on_agent_finish agent_name output tr = tr @ [AgentFinish agent_name (take 400 output)]"

definition on_backtracking :: "string \<Rightarrow> event list \<Rightarrow> event list" where
  "on_backtracking feedback tr = tr @ [BacktrackEvent (take 300 feedback)]"

definition on_crew_finish :: "string \<Rightarrow> event list \<Rightarrow> event list" where
  "on_crew_finish res tr = tr @ [CrewFinish (take 500 res)]"

definition on_error :: "string \<Rightarrow> event list \<Rightarrow> event list" where
  "on_error error_message tr = tr @ [ErrorEvent error_message]"

definition MAX_ITERATIONS :: nat where
  "MAX_ITERATIONS = 3"

definition investigator_name :: string where
  "investigator_name = ''Investigador de Noticias''"

definition analyst_name :: string where
  "analyst_name = ''Analista de Sesgos y Fact-Checker''"

definition writer_name :: string where
  "writer_name = ''Redactor Senior''"

text \<open>How one pass through the loop body ends.\<close>

datatype step = Return result_dict | Continue string | Raise string

text \<open>The branch taken when the analysis approves: the writing stage and the success result.\<close>

definition approved_branch ::
  "workers \<Rightarrow> string \<Rightarrow> nat \<Rightarrow> string \<Rightarrow> string \<Rightarrow> string \<Rightarrow> event list \<Rightarrow> event list \<times> step" where
  "approved_branch w session_id iteration topic investigation_result analysis_result tr =
     (let tr1 = on_agent_start writer_name (''Escribiendo art'' @ [CHR 0xED] @ ''culo final...'') tr
      in case write_article w iteration investigation_result analysis_result of
           SetupError e \<Rightarrow> (tr, Raise e)
         | RunError e \<Rightarrow> (tr1, Raise e)
         | Output final_article \<Rightarrow>
             (on_crew_finish final_article
                (on_agent_finish writer_name (''Art'' @ [CHR 0xED] @ ''culo finalizado'') tr1),
              Return [(''status'', PStr ''success''),
                      (''topic'', PStr topic),
                      (''article'', PStr final_article),
                      (''iterations'', PInt (int iteration)),
                      (''session_id'', PStr session_id)]))"

definition refined_topic :: "string \<Rightarrow> string \<Rightarrow> string" where
  "refined_topic topic analysis_result =
     topic @ '' (REFINAMIENTO: '' @ take 200 analysis_result @ '')''"

definition rejected_error_msg :: "string \<Rightarrow> string" where
  "rejected_error_msg analysis_result =
     ''Contenido rechazado despu'' @ [CHR 0xE9] @ ''s de '' @ str_int (int MAX_ITERATIONS)
       @ '' intentos. '' @ [CHR 0xDA] @ ''ltimo feedback: '' @ analysis_result"

text \<open>The branch taken when the analysis rejects.\<close>

definition rejected_branch ::
  "string \<Rightarrow> nat \<Rightarrow> string \<Rightarrow> string \<Rightarrow> event list \<Rightarrow> event list \<times> step" where
  "rejected_branch session_id iteration topic analysis_result tr =
     (if iteration < MAX_ITERATIONS then
        (on_backtracking analysis_result tr, Continue (refined_topic topic analysis_result))
      else
        (tr, Return [(''status'', PStr ''error''),
                     (''topic'', PStr topic),
                     (''error'', PStr (rejected_error_msg analysis_result)),
                     (''session_id'', PStr session_id)]))"

text \<open>
  The body of \<open>while iteration < MAX_ITERATIONS\<close>, entered with \<open>iteration\<close> already
  incremented: research, analysis, and the three-way test on the upper-cased analysis.
\<close>

definition iteration_body ::
  "workers \<Rightarrow> string \<Rightarrow> nat \<Rightarrow> string \<Rightarrow> event list \<Rightarrow> event list \<times> step" where
  "iteration_body w session_id iteration topic tr =
     (let tr1 = on_agent_start investigator_name (''Investigando: '' @ topic) tr
      in case investigate w iteration topic of
           SetupError e \<Rightarrow> (tr, Raise e)
         | RunError e \<Rightarrow> (tr1, Raise e)
         | Output investigation_result \<Rightarrow>
             (let tr2 = on_agent_finish investigator_name investigation_result tr1;
                  tr3 = on_agent_start analyst_name ''Analizando reporte...'' tr2
              in case analyse w iteration investigation_result of
                   SetupError e \<Rightarrow> (tr2, Raise e)
                 | RunError e \<Rightarrow> (tr3, Raise e)
                 | Output analysis_result \<Rightarrow>
                     (let tr4 = on_agent_finish analyst_name analysis_result tr3;
                          analysis_text = str_upper analysis_result
                      in if contains ''APROBADO'' analysis_text
                            \<and> \<not> contains ''RECHAZADO'' analysis_text then
                           approved_branch w session_id iteration topic
                             investigation_result analysis_result tr4
                         else if contains ''RECHAZADO'' analysis_text then
                           rejected_branch session_id iteration topic analysis_result tr4
                         else (tr4, Continue topic))))"

text \<open>
  What \<open>run\<close> returns, with two observations: the events published and the value of
  \<open>iteration\<close> at the return, which is the number of cycles begun.
\<close>

record run_result =
  result :: result_dict
  events :: "event list"
  cycles :: nat

definition crew_error_msg :: "string \<Rightarrow> string" where
  "crew_error_msg e = ''Error durante ejecuci'' @ [CHR 0xF3] @ ''n de crew: '' @ e"

definition exhausted_error_msg :: string where
  "exhausted_error_msg =
     ''No se logr'' @ [CHR 0xF3] @ '' aprobaci'' @ [CHR 0xF3] @ ''n despu'' @ [CHR 0xE9] @ ''s de ''
       @ str_int (int MAX_ITERATIONS) @ '' iteraciones''"

text \<open>
  The loop with its exception handler and the return after the loop. \<open>iteration\<close> is
  the counter before the increment.
\<close>

function run_loop :: "workers \<Rightarrow> string \<Rightarrow> nat \<Rightarrow> string \<Rightarrow> event list \<Rightarrow> run_result" where
  "run_loop w session_id iteration topic tr =
     (if iteration < MAX_ITERATIONS then
        (case iteration_body w session_id (iteration + 1) topic tr of
           (tr', Return d) \<Rightarrow> \<lparr>result = d, events = tr', cycles = iteration + 1\<rparr>
         | (tr', Continue topic') \<Rightarrow> run_loop w session_id (iteration + 1) topic' tr'
         | (tr', Raise e) \<Rightarrow>
             \<lparr>result = [(''status'', PStr ''error''),
                        (''topic'', PStr topic),
                        (''error'', PStr (crew_error_msg e)),
                        (''session_id'', PStr session_id)],
              events = on_error (crew_error_msg e) tr',
              cycles = iteration + 1\<rparr>)
      else
        \<lparr>result = [(''status'', PStr ''error''),
                   (''topic'', PStr topic),
                   (''error'', PStr exhausted_error_msg),
                   (''session_id'', PStr session_id)],
         events = tr,
         cycles = iteration\<rparr>)"
  by pat_completeness auto
termination
  by (relation "measure (\<lambda>(w, session_id, iteration, topic, tr). MAX_ITERATIONS - iteration)")
     auto

declare run_loop.simps [simp del]

definition run :: "workers \<Rightarrow> string \<Rightarrow> string \<Rightarrow> run_result" where
  "run w session_id topic = run_loop w session_id 0 topic []"

text \<open>
  The verdict rule in the words of the specification, for a given approval token and
  rejection token.
\<close>

datatype verdict = Approved | Rejected | Ambiguous

definition spec_parse_verdict :: "string \<Rightarrow> string \<Rightarrow> string \<Rightarrow> verdict" where
  "spec_parse_verdict approval rejection text =
     (let up = str_upper text
      in if contains approval up \<and> \<not> contains rejection up then Approved
         else if contains rejection up then Rejected
         else Ambiguous)"

text \<open>The events up to the end of the analysis stage of an iteration.\<close>

definition after_analysis :: "string \<Rightarrow> string \<Rightarrow> string \<Rightarrow> event list \<Rightarrow> event list" where
  "after_analysis topic investigation_result analysis_result tr =
     tr @ [AgentStart investigator_name (take 200 (''Investigando: '' @ topic)),
           AgentFinish investigator_name (take 400 investigation_result),
           AgentStart analyst_name ''Analizando reporte...'',
           AgentFinish analyst_name (take 400 analysis_result)]"

fun is_agent_start :: "string \<Rightarrow> event \<Rightarrow> bool" where
  "is_agent_start name (AgentStart a t) = (a = name)"
| "is_agent_start name ev = False"

text \<open>The number of research start events among the events published.\<close>

definition research_starts :: "event list \<Rightarrow> nat" where
  "research_starts tr = length (filter (is_agent_start investigator_name) tr)"

fun is_backtrack :: "event \<Rightarrow> bool" where
  "is_backtrack (BacktrackEvent f) = True"
| "is_backtrack ev = False"

section \<open>The markdown post-processor (src/formatting.py)\<close>

text \<open>
  The character classes are Python's on the code points below 256: \<open>is_space\<close> is
  \<open>str.isspace\<close> and the regular expression class \<open>\s\<close>, \<open>is_alnum\<close> is \<open>str.isalnum\<close>.
\<close>

definition newline :: char where
  "newline = CHR 0x0A"

definition is_space :: "char \<Rightarrow> bool" where
  "is_space c = List.member [9, 10, 11, 12, 13, 28, 29, 30, 31, 32, 133, 160] (chr_code c)"

definition in_range :: "nat \<Rightarrow> nat \<Rightarrow> char \<Rightarrow> bool" where
  "in_range lo hi c = (lo \<le> chr_code c \<and> chr_code c \<le> hi)"

definition is_alnum :: "char \<Rightarrow> bool" where
  "is_alnum c =
     (in_range 48 57 c \<or> in_range 65 90 c \<or> in_range 97 122 c
      \<or> List.member [170, 178, 179, 181, 185, 186, 188, 189, 190] (chr_code c)
      \<or> in_range 192 214 c \<or> in_range 216 246 c \<or> in_range 248 255 c)"

text \<open>Step 0: \<open>re.sub(r"\s+", " ", raw_text)\<close>.\<close>

function collapse_spaces :: "string \<Rightarrow> string" where
  "collapse_spaces [] = []"
| "collapse_spaces (c # s) =
     (if is_space c then CHR '' '' # collapse_spaces (dropWhile is_space s)
      else c # collapse_spaces s)"
  by pat_completeness auto
termination
  by (relation "measure length") (auto simp: length_dropWhile_le less_Suc_eq_le)

text \<open>
  Steps 1, 2, 3 and the first half of 5 are \<open>re.sub(r"([^\n])(G)", r"\1\n\n\2", text)\<close>
  for a second group \<open>G\<close>. A matcher gives the length of the match of \<open>G\<close> at the start
  of a text: a literal, \<open>#+\<close> followed by a space, or \<open>- [A-Z]\<close>. The scan goes from
  left to right and resumes after each match.
\<close>

definition match_literal :: "string \<Rightarrow> string \<Rightarrow> nat option" where
  "match_literal lit s = (if starts_with s lit then Some (length lit) else None)"

definition match_heading :: "string \<Rightarrow> nat option" where
  "match_heading s =
     (let k = length (takeWhile (\<lambda>c. c = CHR ''#'') s)
      in if 1 \<le> k \<and> starts_with (drop k s) '' '' then Some (k + 1) else None)"

fun match_list_item :: "string \<Rightarrow> nat option" where
  "match_list_item (a # b # c # s) =
     (if a = CHR ''-'' \<and> b = CHR '' '' \<and> in_range 65 90 c then Some 3 else None)"
| "match_list_item s = None"

function break_before :: "(string \<Rightarrow> nat option) \<Rightarrow> string \<Rightarrow> string" where
  "break_before m [] = []"
| "break_before m (c # s) =
     (if c \<noteq> newline then
        (case m s of
           Some n \<Rightarrow> c # newline # newline # take n s @ break_before m (drop n s)
         | None \<Rightarrow> c # break_before m s)
      else c # break_before m s)"
  by pat_completeness auto
termination
  by (relation "measure (\<lambda>(m, s). length s)") (auto simp: less_Suc_eq_le)

text \<open>Second half of step 5: \<open>re.sub(r"(---)([^\n])", r"\1\n\n\2", text)\<close>.\<close>

fun break_after_rule :: "string \<Rightarrow> string" where
  "break_after_rule (a # b # c # d # s) =
     (if a = CHR ''-'' \<and> b = CHR ''-'' \<and> c = CHR ''-'' \<and> d \<noteq> newline
      then a # b # c # newline # newline # d # break_after_rule s
      else a # break_after_rule (b # c # d # s))"
| "break_after_rule s = s"

text \<open>Step 6: a lower-case letter followed by a capital, with the Spanish accented letters.\<close>

definition is_lower_es :: "char \<Rightarrow> bool" where
  "is_lower_es c = (in_range 97 122 c \<or> List.member [225, 233, 237, 243, 250, 241] (chr_code c))"

definition is_upper_es :: "char \<Rightarrow> bool" where
  "is_upper_es c = (in_range 65 90 c \<or> List.member [193, 201, 205, 211, 218, 209] (chr_code c))"

fun split_camel :: "string \<Rightarrow> string" where
  "split_camel (a # b # s) =
     (if is_lower_es a \<and> is_upper_es b then a # newline # newline # b # split_camel s
      else a # split_camel (b # s))"
| "split_camel s = s"

text \<open>Step 7: \<open>re.sub(r"\n{3,}", "\n\n", text)\<close>; the match is the whole run of newlines.\<close>

function squeeze_newlines :: "string \<Rightarrow> string" where
  "squeeze_newlines [] = []"
| "squeeze_newlines (c # s) =
     (if 3 \<le> length (takeWhile (\<lambda>x. x = newline) (c # s))
      then newline # newline # squeeze_newlines (dropWhile (\<lambda>x. x = newline) (c # s))
      else c # squeeze_newlines s)"
  by pat_completeness auto
termination
proof (relation "measure length")
  show "wf (measure length)" by simp
next
  fix c :: char and s :: string
  assume "3 \<le> length (takeWhile (\<lambda>x. x = newline) (c # s))"
  then have "c = newline" by (auto split: if_splits)
  then have "length (dropWhile (\<lambda>x. x = newline) (c # s)) \<le> length s"
    by (simp add: length_dropWhile_le)
  then show "(dropWhile (\<lambda>x. x = newline) (c # s), c # s) \<in> measure length" by simp
next
  fix c :: char and s :: string
  show "(s, c # s) \<in> measure length" by simp
qed

text \<open>
  Step 4, \<open>fix_bold_spacing\<close>: \<open>split_bold [] text\<close> is \<open>text.split("**")\<close>, and
  \<open>join_bold 0 parts\<close> is the loop that joins the parts with the chosen separators.
\<close>

fun split_bold :: "string \<Rightarrow> string \<Rightarrow> string list" where
  "split_bold cur (a # b # s) =
     (if a = CHR ''*'' \<and> b = CHR ''*'' then cur # split_bold [] s
      else split_bold (cur @ [a]) (b # s))"
| "split_bold cur s = [cur @ s]"

definition bold_sep :: "nat \<Rightarrow> string \<Rightarrow> string \<Rightarrow> string" where
  "bold_sep i part next_part =
     (if i mod 2 = 0 then
        (if part \<noteq> [] \<and> is_alnum (last part) then [newline, newline] @ ''**'' else ''**'')
      else
        (if next_part \<noteq> [] \<and> is_alnum (hd next_part) then ''**'' @ [newline, newline] else ''**''))"

fun join_bold :: "nat \<Rightarrow> string list \<Rightarrow> string" where
  "join_bold i [] = []"
| "join_bold i [part] = part"
| "join_bold i (part # next_part # rest) =
     part @ bold_sep i part next_part @ join_bold (i + 1) (next_part # rest)"

definition fix_bold_spacing :: "string \<Rightarrow> string" where
  "fix_bold_spacing text =
     (let parts = split_bold [] text
      in if length parts < 2 then text else join_bold 0 parts)"

definition format_news_article :: "string \<Rightarrow> string" where
  "format_news_article raw_text =
     (if raw_text = [] then []
      else
        (let formatted = collapse_spaces raw_text;
             formatted = break_before match_heading formatted;
             formatted = break_before (match_literal ''> '') formatted;
             formatted = break_before (match_literal ''- **'') formatted;
             formatted = break_before match_list_item formatted;
             formatted = fix_bold_spacing formatted;
             formatted = break_before (match_literal ''---'') formatted;
             formatted = break_after_rule formatted;
             formatted = split_camel formatted
         in squeeze_newlines formatted))"

text \<open>The number of newlines a text begins with.\<close>

definition lead_newlines :: "string \<Rightarrow> nat" where
  "lead_newlines s = length (takeWhile (\<lambda>x. x = newline) s)"

section \<open>The submission endpoint (app.py, generate_article)\<close>

text \<open>
  The value \<open>flask_request.get_json()\<close> returns: a parsed JSON document, with \<open>JNull\<close>
  also standing for \<open>None\<close>. An object is the list of its entries, keys distinct as in
  a \<open>dict\<close>.
\<close>

datatype json =
    JNull
  | JBool bool
  | JNum real
  | JStr string
  | JArr "json list"
  | JObj "(string \<times> json) list"

text \<open>
  The exceptions the handler can meet: one raised by \<open>get_json\<close> (with its text), or one
  raised by the interpreter on a value of the wrong type.
\<close>

datatype py_exn = GetJsonError string | TypeError | AttributeError | KeyError

text \<open>
  \<open>truthy data\<close> is the truth value of \<open>data\<close>, \<open>has_topic data\<close> is \<open>"topic" in data\<close>,
  \<open>get_topic data\<close> is \<open>data["topic"]\<close> and \<open>strip_value v\<close> is \<open>v.strip()\<close>.
\<close>

fun truthy :: "json \<Rightarrow> bool" where
  "truthy JNull = False"
| "truthy (JBool b) = b"
| "truthy (JNum x) = (x \<noteq> 0)"
| "truthy (JStr s) = (s \<noteq> [])"
| "truthy (JArr xs) = (xs \<noteq> [])"
| "truthy (JObj kvs) = (kvs \<noteq> [])"

fun has_topic :: "json \<Rightarrow> py_exn + bool" where
  "has_topic (JObj kvs) = Inr (map_of kvs ''topic'' \<noteq> None)"
| "has_topic (JStr s) = Inr (contains ''topic'' s)"
| "has_topic (JArr xs) = Inr (List.member xs (JStr ''topic''))"
| "has_topic v = Inl TypeError"

fun get_topic :: "json \<Rightarrow> py_exn + json" where
  "get_topic (JObj kvs) = (case map_of kvs ''topic'' of Some v \<Rightarrow> Inr v | None \<Rightarrow> Inl KeyError)"
| "get_topic v = Inl TypeError"

definition strip :: "string \<Rightarrow> string" where
  "strip s = rev (dropWhile is_space (rev (dropWhile is_space s)))"

fun strip_value :: "json \<Rightarrow> py_exn + string" where
  "strip_value (JStr s) = Inr (strip s)"
| "strip_value v = Inl AttributeError"

text \<open>
  The registry \<open>active_sessions\<close> and the threads started, as (topic, session id) pairs.
\<close>

record session_info =
  s_topic :: string
  s_started_at :: string
  s_status :: string

record app_state =
  active_sessions :: "string \<rightharpoonup> session_info"
  threads :: "(string \<times> string) list"

text \<open>
  What the handler takes from its surroundings: the identifier \<open>uuid.uuid4()\<close> draws,
  the time \<open>datetime.now().isoformat()\<close> reads, and the text \<open>str(e)\<close> of an exception.
\<close>

record app_env =
  uuid4 :: string
  now :: string
  str_exn :: "py_exn \<Rightarrow> string"

record http_response =
  resp_body :: result_dict
  resp_code :: nat

definition error_response :: "string \<Rightarrow> nat \<Rightarrow> http_response" where
  "error_response message c =
     \<lparr>resp_body = [(''status'', PStr ''error''), (''message'', PStr message)], resp_code = c\<rparr>"

definition topic_required_msg :: string where
  "topic_required_msg = ''Campo \"topic\" requerido en el body''"

definition topic_empty_msg :: string where
  "topic_empty_msg = ''El tema no puede estar vac'' @ [CHR 0xED] @ ''o''"

definition started_msg :: string where
  "started_msg = ''Generaci'' @ [CHR 0xF3] @ ''n iniciada. Con'' @ [CHR 0xE9]
     @ ''ctate al namespace /agents con este session_id''"

text \<open>
  The handler of \<open>POST /api/generate\<close>. The request is what \<open>get_json\<close> does: it raises or
  returns a document. Every exception ends in the 500 response of the \<open>except\<close> clause.
\<close>

definition generate_article ::
  "app_env \<Rightarrow> py_exn + json \<Rightarrow> app_state \<Rightarrow> http_response \<times> app_state" where
  "generate_article env request st =
     (case request of
        Inl e \<Rightarrow> (error_response (str_exn env e) 500, st)
      | Inr data \<Rightarrow>
          if \<not> truthy data then (error_response topic_required_msg 400, st)
          else
            (case has_topic data of
               Inl e \<Rightarrow> (error_response (str_exn env e) 500, st)
             | Inr False \<Rightarrow> (error_response topic_required_msg 400, st)
             | Inr True \<Rightarrow>
                 (case get_topic data of
                    Inl e \<Rightarrow> (error_response (str_exn env e) 500, st)
                  | Inr v \<Rightarrow>
                      (case strip_value v of
                         Inl e \<Rightarrow> (error_response (str_exn env e) 500, st)
                       | Inr topic \<Rightarrow>
                           if topic = [] then (error_response topic_empty_msg 400, st)
                           else
                             (\<lparr>resp_body = [(''status'', PStr ''started''),
                                       (''session_id'', PStr (uuid4 env)),
                                       (''topic'', PStr topic),
                                       (''message'', PStr started_msg)],
                               resp_code = 202\<rparr>,
                              st\<lparr>active_sessions :=
                                    (active_sessions st)(uuid4 env \<mapsto>
                                       \<lparr>s_topic = topic, s_started_at = now env,
                                        s_status = ''running''\<rparr>),
                                  threads := threads st @ [(topic, uuid4 env)]\<rparr>)))))"

section \<open>Example inputs and predicates used in the statements\<close>

text \<open>A registry with no sessions and fixed surroundings for the endpoint.\<close>

definition empty_state :: app_state where
  "empty_state = \<lparr>active_sessions = Map.empty, threads = []\<rparr>"

definition demo_env :: app_env where
  "demo_env = \<lparr>uuid4 = ''id-1'', now = ''2025-01-01T00:00:00'', str_exn = (\<lambda>e. ''exception'')\<rparr>"

text \<open>Workers used to exercise the orchestrator.\<close>

definition rejecting_workers :: workers where
  "rejecting_workers =
     \<lparr>investigate = (\<lambda>i t. Output ''informe''),
      analyse = (\<lambda>i r. Output ''Veredicto: Rechazado, falta fuente oficial''),
      write_article = (\<lambda>i r a. Output ''# Titular'')\<rparr>"

definition approving_workers :: workers where
  "approving_workers =
     \<lparr>investigate = (\<lambda>i t. Output ''informe''),
      analyse = (\<lambda>i r. Output ''VEREDICTO: APROBADO''),
      write_article = (\<lambda>i r a. Output ''# Titular'')\<rparr>"

definition vague_workers :: workers where
  "vague_workers =
     \<lparr>investigate = (\<lambda>i t. Output ''informe''),
      analyse = (\<lambda>i r. Output ''sin veredicto''),
      write_article = (\<lambda>i r a. Output ''# Titular'')\<rparr>"

definition empty_article_workers :: workers where
  "empty_article_workers =
     \<lparr>investigate = (\<lambda>i t. Output ''informe''),
      analyse = (\<lambda>i r. Output ''VEREDICTO: APROBADO''),
      write_article = (\<lambda>i r a. Output [])\<rparr>"

text \<open>The two shapes a returned dictionary can have: success with an article, or error.\<close>

definition result_shape :: "workers \<Rightarrow> result_dict \<Rightarrow> bool" where
  "result_shape w d =
     ((dict_get d ''status'' = Some (PStr ''success'')
         \<and> (\<exists>art k ir ar. dict_get d ''article'' = Some (PStr art)
                \<and> write_article w k ir ar = Output art)
         \<and> dict_get d ''error'' = None)
      \<or> (dict_get d ''status'' = Some (PStr ''error'')
         \<and> (\<exists>m. dict_get d ''error'' = Some (PStr m) \<and> m \<noteq> [])
         \<and> dict_get d ''article'' = None))"

text \<open>
  Inputs used to exercise the client: upstream behaviours, configurations, and the
  durations a platform with 64-bit nanosecond timestamps accepts for a sleep.
\<close>

definition always_404 :: "nat \<Rightarrow> post_outcome" where
  "always_404 k = Response 404 (Body ''not found'')"

definition broken_404 :: "nat \<Rightarrow> post_outcome" where
  "broken_404 k = Response 404 (BodyError ''Connection broken'')"





definition int64_sleep :: "real \<Rightarrow> bool" where
  "int64_sleep d = (d * 10 ^ 9 < 2 ^ 63)"



chapter \<open>Verified properties\<close>

section \<open>Properties of the resilient client\<close>

lemma str_nat_nonempty: "str_nat n \<noteq> []"
  by (subst str_nat.simps) simp

lemma str_int_nonempty: "str_int n \<noteq> []"
  by (simp add: str_int_def str_nat_nonempty)















lemma retry_loop_step_done:
  "int k < MAX_RETRIES cfg \<Longrightarrow> try_once stream (post k) = Done pair \<Longrightarrow>
     retry_loop acc cfg stream post rnd k lerr sl =
       \<lparr>returned = Inr pair, attempts = k + 1, slept = sl\<rparr>"
  by (subst retry_loop.simps) simp










lemma try_once_client_error:
  "do_post stream out = Response sc (Body t) \<Longrightarrow> 400 \<le> sc \<Longrightarrow> sc < 500 \<Longrightarrow> sc \<noteq> 429 \<Longrightarrow>
     try_once stream out
       = Done (None, Some \<lparr>error = ''Error cliente RALF: '' @ str_int sc @ '' - '' @ t,
                            status_code = sc\<rparr>)"
  by (simp add: try_once_def client_error_msg_def)




lemma str_int_404: "str_int 404 = ''404''"
  by (simp add: str_int_def str_nat.simps digit_char_def)

lemma readable_client_error_not_retried:
  assumes "int attempt < MAX_RETRIES cfg" and "do_post stream (post attempt) = Response sc (Body t)"
    and "400 \<le> sc" and "sc < 500" and "sc \<noteq> 429"
  shows "retry_loop acc cfg stream post rnd attempt lerr sl =
           \<lparr>returned = Inr (None,
                Some \<lparr>error = ''Error cliente RALF: '' @ str_int sc @ '' - '' @ t,
                       status_code = sc\<rparr>),
            attempts = attempt + 1, slept = sl\<rparr>"
  using retry_loop_step_done [where post = post, OF assms(1)
      try_once_client_error [OF assms(2) assms(3) assms(4) assms(5)]] .





text \<open>
  C6. A 4xx response other than 429 whose body is read ends the call at the first request
  with the client error and without a sleep. The body is read inside the \<open>try\<close> statement:
  when the request is made with \<open>stream\<close> set and the body of such a response cannot be
  read, the failure is caught like a failed request, and the call sleeps and retries until
  the attempts are used up.
\<close>

theorem unreadable_client_error_retried:
  "broken_404 0 = Response 404 (BodyError ''Connection broken'')
   \<and> call_ralf_with_retry int64_sleep default_config True broken_404 (\<lambda>k. 1 / 2) =
       \<lparr>returned = Inr (None,
            Some \<lparr>error = ''Excepci'' @ [CHR 0xF3] @ ''n conexi'' @ [CHR 0xF3]
                            @ ''n RALF: Connection broken'',
                   status_code = 503\<rparr>),
        attempts = 5, slept = [2, 4, 8, 16]\<rparr>
   \<and> call_ralf_with_retry int64_sleep default_config True always_404 (\<lambda>k. 1 / 2) =
       \<lparr>returned = Inr (None,
            Some \<lparr>error = ''Error cliente RALF: 404 - not found'', status_code = 404\<rparr>),
        attempts = 1, slept = []\<rparr>"
  by (simp add: call_ralf_with_retry_def retry_loop.simps broken_404_def always_404_def
      default_config_def try_once_def do_post_def sleep_after_def final_delay_def
      backoff_delay_def jitter_of_def int64_sleep_def connection_error_def
      connection_error_msg_def client_error_msg_def str_int_404)




section \<open>Properties of the orchestrator\<close>

lemma upper_approved: "str_upper ''VEREDICTO: APROBADO'' = ''VEREDICTO: APROBADO''"
  by (simp add: str_upper_def upper_char_def lower_letters_def upper_letters_def)

lemma upper_rejected:
  "str_upper ''Veredicto: Rechazado, falta fuente oficial'' = ''VEREDICTO: RECHAZADO, FALTA FUENTE OFICIAL''"
  by (simp add: str_upper_def upper_char_def lower_letters_def upper_letters_def)

lemma upper_vague: "str_upper ''sin veredicto'' = ''SIN VEREDICTO''"
  by (simp add: str_upper_def upper_char_def lower_letters_def upper_letters_def)

lemma verdict_approved: "spec_parse_verdict ''APROBADO'' ''RECHAZADO'' ''VEREDICTO: APROBADO'' = Approved"
  by (simp add: spec_parse_verdict_def upper_approved)

lemma verdict_rejected:
  "spec_parse_verdict ''APROBADO'' ''RECHAZADO'' ''Veredicto: Rechazado, falta fuente oficial'' = Rejected"
  by (simp add: spec_parse_verdict_def upper_rejected)

lemma verdict_vague: "spec_parse_verdict ''APROBADO'' ''RECHAZADO'' ''sin veredicto'' = Ambiguous"
  by (simp add: spec_parse_verdict_def upper_vague)

lemma iteration_body_branches:
  assumes "investigate w i topic = Output r" and "analyse w i r = Output a"
  shows "iteration_body w sid i topic tr =
           (case spec_parse_verdict ''APROBADO'' ''RECHAZADO'' a of
              Approved \<Rightarrow> approved_branch w sid i topic r a (after_analysis topic r a tr)
            | Rejected \<Rightarrow> rejected_branch sid i topic a (after_analysis topic r a tr)
            | Ambiguous \<Rightarrow> (after_analysis topic r a tr, Continue topic))"
  using assms
  by (simp add: iteration_body_def spec_parse_verdict_def Let_def after_analysis_def
      on_agent_start_def on_agent_finish_def del: contains.simps)

lemma approved_branch_starts_writer:
  "(case write_article w i r a of
      SetupError e \<Rightarrow> True
    | RunError e \<Rightarrow> list_ex (is_agent_start writer_name) (fst (approved_branch w sid i topic r a tr))
    | Output art \<Rightarrow> list_ex (is_agent_start writer_name) (fst (approved_branch w sid i topic r a tr)))"
  by (simp add: approved_branch_def on_agent_start_def on_agent_finish_def on_crew_finish_def
      Let_def list_ex_iff split: outcome.splits)

lemma rejected_branch_no_writer:
  "filter (is_agent_start writer_name) (fst (rejected_branch sid i topic a tr))
     = filter (is_agent_start writer_name) tr"
  by (simp add: rejected_branch_def on_backtracking_def)

lemma names_distinct:
  "analyst_name \<noteq> investigator_name" "writer_name \<noteq> investigator_name"
  "investigator_name \<noteq> writer_name" "analyst_name \<noteq> writer_name"
  by (simp_all add: analyst_name_def investigator_name_def writer_name_def)

lemma approved_branch_research_count:
  "research_starts (fst (approved_branch w sid i topic r a tr)) = research_starts tr"
  by (simp add: research_starts_def approved_branch_def Let_def names_distinct
      on_agent_start_def on_agent_finish_def on_crew_finish_def split: outcome.splits)

lemma rejected_branch_research_count:
  "research_starts (fst (rejected_branch sid i topic a tr)) = research_starts tr"
  by (simp add: research_starts_def rejected_branch_def on_backtracking_def)

lemma iteration_body_research_count:
  "research_starts (fst (iteration_body w sid i topic tr)) \<le> Suc (research_starts tr)
   \<and> research_starts tr \<le> research_starts (fst (iteration_body w sid i topic tr))
   \<and> (case snd (iteration_body w sid i topic tr) of
         Raise e \<Rightarrow> True
       | Return d \<Rightarrow>
           research_starts (fst (iteration_body w sid i topic tr)) = Suc (research_starts tr)
       | Continue t \<Rightarrow>
           research_starts (fst (iteration_body w sid i topic tr)) = Suc (research_starts tr))"
proof (cases "investigate w i topic")
  case (SetupError e)
  then show ?thesis by (simp add: iteration_body_def Let_def)
next
  case (RunError e)
  then show ?thesis
    by (simp add: iteration_body_def Let_def research_starts_def on_agent_start_def)
next
  case inv: (Output r)
  show ?thesis
  proof (cases "analyse w i r")
    case (SetupError e)
    then show ?thesis using inv
      by (simp add: iteration_body_def Let_def research_starts_def on_agent_start_def
          on_agent_finish_def)
  next
    case (RunError e)
    then show ?thesis using inv
      by (simp add: iteration_body_def Let_def research_starts_def on_agent_start_def
          on_agent_finish_def names_distinct)
  next
    case ana: (Output a)
    have base: "research_starts (after_analysis topic r a tr) = Suc (research_starts tr)"
      by (simp add: research_starts_def after_analysis_def names_distinct)
    show ?thesis
      using iteration_body_branches [OF inv ana, of sid tr] base
      by (simp add: approved_branch_research_count rejected_branch_research_count
          split: verdict.splits step.splits)
  qed
qed

lemma run_loop_continue:
  "k < MAX_ITERATIONS \<Longrightarrow> iteration_body w sid (Suc k) topic tr = (tr', Continue topic') \<Longrightarrow>
     run_loop w sid k topic tr = run_loop w sid (Suc k) topic' tr'"
  by (subst run_loop.simps) simp

lemma run_loop_return:
  "k < MAX_ITERATIONS \<Longrightarrow> iteration_body w sid (Suc k) topic tr = (tr', Return d) \<Longrightarrow>
     run_loop w sid k topic tr = \<lparr>result = d, events = tr', cycles = Suc k\<rparr>"
  by (subst run_loop.simps) simp

lemma run_loop_raise:
  "k < MAX_ITERATIONS \<Longrightarrow> iteration_body w sid (Suc k) topic tr = (tr', Raise e) \<Longrightarrow>
     run_loop w sid k topic tr =
       \<lparr>result = [(''status'', PStr ''error''), (''topic'', PStr topic),
                  (''error'', PStr (crew_error_msg e)), (''session_id'', PStr sid)],
        events = on_error (crew_error_msg e) tr', cycles = Suc k\<rparr>"
  by (subst run_loop.simps) simp

lemma run_loop_exhausted:
  "\<not> k < MAX_ITERATIONS \<Longrightarrow>
     run_loop w sid k topic tr =
       \<lparr>result = [(''status'', PStr ''error''), (''topic'', PStr topic),
                  (''error'', PStr exhausted_error_msg), (''session_id'', PStr sid)],
        events = tr, cycles = k\<rparr>"
  by (subst run_loop.simps) simp

lemma run_loop_cycles:
  "k \<le> MAX_ITERATIONS \<Longrightarrow>
     cycles (run_loop w sid k topic tr) \<le> MAX_ITERATIONS
     \<and> k \<le> cycles (run_loop w sid k topic tr)
     \<and> (k < MAX_ITERATIONS \<longrightarrow> k + 1 \<le> cycles (run_loop w sid k topic tr))
     \<and> research_starts (events (run_loop w sid k topic tr)) + k
          \<le> research_starts tr + cycles (run_loop w sid k topic tr)
     \<and> research_starts tr + cycles (run_loop w sid k topic tr)
          \<le> research_starts (events (run_loop w sid k topic tr)) + k + 1"
proof (induction w sid k topic tr rule: run_loop.induct)
  case (1 w session_id iteration topic tr)
  show ?case
  proof (cases "iteration < MAX_ITERATIONS")
    case False
    then show ?thesis using "1.prems" by (simp add: run_loop_exhausted)
  next
    case True
    obtain tr' st where body: "iteration_body w session_id (Suc iteration) topic tr = (tr', st)"
      by (cases "iteration_body w session_id (Suc iteration) topic tr") auto
    note cnt = iteration_body_research_count [of w session_id "Suc iteration" topic tr]
    show ?thesis
    proof (cases st)
      case (Return d)
      have "research_starts tr' = Suc (research_starts tr)"
        using cnt body Return by simp
      then show ?thesis using True body Return
        by (simp add: run_loop_return [OF True])
    next
      case (Continue topic')
      have c: "research_starts tr' = Suc (research_starts tr)"
        using cnt body Continue by simp
      have le: "iteration + 1 \<le> MAX_ITERATIONS" using True by simp
      have body': "(tr', st) = iteration_body w session_id (iteration + 1) topic tr"
        using body by simp
      note ih = "1.IH" [OF True body' Continue le]
      have eq: "run_loop w session_id iteration topic tr
                  = run_loop w session_id (Suc iteration) topic' tr'"
        using body Continue by (simp add: run_loop_continue [OF True])
      show ?thesis unfolding eq using ih c True by auto
    next
      case (Raise e)
      have "research_starts tr' \<le> Suc (research_starts tr)"
        "research_starts tr \<le> research_starts tr'"
        using cnt body by simp_all
      then show ?thesis using True body Raise
        by (simp add: run_loop_raise [OF True] on_error_def research_starts_def)
    qed
  qed
qed

lemma rejected_error_msg_text:
  "rejected_error_msg a =
     ''Contenido rechazado despu'' @ [CHR 0xE9] @ ''s de 3 intentos. '' @ [CHR 0xDA]
       @ ''ltimo feedback: '' @ a"
  by (simp add: rejected_error_msg_def MAX_ITERATIONS_def str_int_def str_nat.simps digit_char_def)

lemma after_analysis_no_writer:
  "filter (is_agent_start writer_name) (after_analysis topic r a tr)
     = filter (is_agent_start writer_name) tr"
  by (simp add: after_analysis_def names_distinct)

lemma rejected_error_msg_nonempty: "rejected_error_msg a \<noteq> []"
  by (simp add: rejected_error_msg_def)

lemma crew_error_msg_nonempty: "crew_error_msg e \<noteq> []"
  by (simp add: crew_error_msg_def)

lemma exhausted_error_msg_nonempty: "exhausted_error_msg \<noteq> []"
  by (simp add: exhausted_error_msg_def)

lemma approved_branch_shape:
  assumes "approved_branch w sid i topic r a tr = (tr', Return d)"
  shows "result_shape w d"
proof (cases "write_article w i r a")
  case (SetupError e)
  then show ?thesis using assms by (simp add: approved_branch_def Let_def)
next
  case (RunError e)
  then show ?thesis using assms by (simp add: approved_branch_def Let_def)
next
  case (Output art)
  then have d: "d = [(''status'', PStr ''success''), (''topic'', PStr topic),
      (''article'', PStr art), (''iterations'', PInt (int i)), (''session_id'', PStr sid)]"
    using assms by (simp add: approved_branch_def Let_def)
  have "\<exists>art' k ir ar. dict_get d ''article'' = Some (PStr art') \<and> write_article w k ir ar = Output art'"
    using Output
    by (intro exI [of _ art] exI [of _ i] exI [of _ r] exI [of _ a]) (simp add: d dict_get_def)
  then show ?thesis by (simp add: result_shape_def) (simp add: d dict_get_def)
qed

lemma rejected_branch_shape:
  "rejected_branch sid i topic a tr = (tr', Return d) \<Longrightarrow> result_shape w d"
  by (auto simp: rejected_branch_def result_shape_def dict_get_def rejected_error_msg_nonempty
      split: if_splits)

lemma iteration_body_shape:
  assumes "iteration_body w sid i topic tr = (tr', Return d)"
  shows "result_shape w d"
proof (cases "investigate w i topic")
  case (SetupError e)
  then show ?thesis using assms by (simp add: iteration_body_def Let_def)
next
  case (RunError e)
  then show ?thesis using assms by (simp add: iteration_body_def Let_def)
next
  case inv: (Output r)
  show ?thesis
  proof (cases "analyse w i r")
    case (SetupError e)
    then show ?thesis using assms inv by (simp add: iteration_body_def Let_def)
  next
    case (RunError e)
    then show ?thesis using assms inv by (simp add: iteration_body_def Let_def)
  next
    case ana: (Output a)
    note body = iteration_body_branches [OF inv ana, of sid tr]
    show ?thesis
    proof (cases "spec_parse_verdict ''APROBADO'' ''RECHAZADO'' a")
      case Approved
      then have "approved_branch w sid i topic r a (after_analysis topic r a tr) = (tr', Return d)"
        using body assms by simp
      then show ?thesis by (rule approved_branch_shape)
    next
      case Rejected
      then have "rejected_branch sid i topic a (after_analysis topic r a tr) = (tr', Return d)"
        using body assms by simp
      then show ?thesis by (rule rejected_branch_shape)
    next
      case Ambiguous
      then show ?thesis using body assms by simp
    qed
  qed
qed

lemma run_loop_shape: "result_shape w (result (run_loop w sid k topic tr))"
proof (induction w sid k topic tr rule: run_loop.induct)
  case (1 w session_id iteration topic tr)
  show ?case
  proof (cases "iteration < MAX_ITERATIONS")
    case False
    then show ?thesis
      by (subst run_loop.simps)
         (simp add: result_shape_def dict_get_def exhausted_error_msg_nonempty)
  next
    case True
    obtain tr' st where body: "iteration_body w session_id (Suc iteration) topic tr = (tr', st)"
      by (cases "iteration_body w session_id (Suc iteration) topic tr") auto
    show ?thesis
    proof (cases st)
      case (Return d)
      then show ?thesis
        using run_loop_return [OF True, of w session_id topic tr tr' d] body
          iteration_body_shape [of w session_id "Suc iteration" topic tr tr' d]
        by simp
    next
      case (Continue topic')
      have "result_shape w (result (run_loop w session_id (iteration + 1) topic' tr'))"
        using "1.IH" [OF True _ Continue, of tr'] body by simp
      then show ?thesis
        using run_loop_continue [OF True, of w session_id topic tr tr' topic'] body Continue
        by simp
    next
      case (Raise e)
      then show ?thesis
        using run_loop_raise [OF True, of w session_id topic tr tr' e] body
        by (simp add: result_shape_def dict_get_def crew_error_msg_nonempty)
    qed
  qed
qed

lemma empty_article_first_iteration:
  "iteration_body empty_article_workers ''s1'' (Suc 0) ''tema'' [] =
     ([AgentStart investigator_name ''Investigando: tema'',
       AgentFinish investigator_name ''informe'',
       AgentStart analyst_name ''Analizando reporte...'',
       AgentFinish analyst_name ''VEREDICTO: APROBADO'',
       AgentStart writer_name (''Escribiendo art'' @ [CHR 0xED] @ ''culo final...''),
       AgentFinish writer_name (''Art'' @ [CHR 0xED] @ ''culo finalizado''),
       CrewFinish []],
      Return [(''status'', PStr ''success''), (''topic'', PStr ''tema''),
              (''article'', PStr []), (''iterations'', PInt 1),
              (''session_id'', PStr ''s1'')])"
  by (simp add: iteration_body_def empty_article_workers_def upper_approved Let_def
      approved_branch_def on_agent_start_def on_agent_finish_def on_crew_finish_def)

lemma empty_article_run:
  "run empty_article_workers ''s1'' ''tema'' =
      \<lparr>result = [(''status'', PStr ''success''), (''topic'', PStr ''tema''),
              (''article'', PStr []), (''iterations'', PInt 1),
              (''session_id'', PStr ''s1'')],
       events = fst (iteration_body empty_article_workers ''s1'' (Suc 0) ''tema'' []),
       cycles = Suc 0\<rparr>"
  unfolding run_def
  by (rule trans [OF run_loop_return [OF _ empty_article_first_iteration]])
     (simp_all add: MAX_ITERATIONS_def empty_article_first_iteration)

text \<open>
  C1. In an iteration whose research and analysis return texts, what the loop body does
  is decided by the verdict rule applied to the analysis text, with \<open>APROBADO\<close> as the
  approval token and \<open>RECHAZADO\<close> as the rejection token: Approved runs the writing
  stage, which starts the writer unless building it raises; Rejected runs the rejection
  branch and Ambiguous continues the loop, neither starting the writer. The text
  \<open>VEREDICTO: APROBADO\<close> is Approved.
\<close>

theorem verdict_rule_followed:
  assumes "investigate w i topic = Output r" and "analyse w i r = Output a"
  shows "iteration_body w sid i topic tr =
           (case spec_parse_verdict ''APROBADO'' ''RECHAZADO'' a of
              Approved \<Rightarrow> approved_branch w sid i topic r a (after_analysis topic r a tr)
            | Rejected \<Rightarrow> rejected_branch sid i topic a (after_analysis topic r a tr)
            | Ambiguous \<Rightarrow> (after_analysis topic r a tr, Continue topic))
       \<and> (case write_article w i r a of
             SetupError e \<Rightarrow> True
           | RunError e \<Rightarrow> list_ex (is_agent_start writer_name)
               (fst (approved_branch w sid i topic r a (after_analysis topic r a tr)))
           | Output art \<Rightarrow> list_ex (is_agent_start writer_name)
               (fst (approved_branch w sid i topic r a (after_analysis topic r a tr))))
       \<and> filter (is_agent_start writer_name)
            (fst (rejected_branch sid i topic a (after_analysis topic r a tr)))
          = filter (is_agent_start writer_name) (after_analysis topic r a tr)
       \<and> spec_parse_verdict ''APROBADO'' ''RECHAZADO'' ''VEREDICTO: APROBADO'' = Approved"
  using iteration_body_branches [OF assms] approved_branch_starts_writer
    rejected_branch_no_writer verdict_approved
  by simp

theorem verdict_rule_followed_witness:
  "investigate approving_workers 1 ''tema'' = Output ''informe'' \<and>
   analyse approving_workers 1 ''informe'' = Output ''VEREDICTO: APROBADO'' \<and>
   snd (iteration_body approving_workers ''s1'' 1 ''tema'' []) =
     snd (approved_branch approving_workers ''s1'' 1 ''tema'' ''informe'' ''VEREDICTO: APROBADO''
            (after_analysis ''tema'' ''informe'' ''VEREDICTO: APROBADO'' []))"
proof -
  have a: "investigate approving_workers 1 ''tema'' = Output ''informe''"
    and b: "analyse approving_workers 1 ''informe'' = Output ''VEREDICTO: APROBADO''"
    by (simp_all add: approving_workers_def)
  show ?thesis
    using a b verdict_rule_followed [OF a b, of "''s1''" "[]"] by simp
qed

text \<open>
  C2 (amended). While iterations remain, a Rejected verdict publishes a backtrack event
  carrying the first 300 characters of the analysis and continues the loop with the topic
  extended by its first 200 characters; an Ambiguous verdict also continues the loop, with
  the events and the topic unchanged.
\<close>

theorem rejection_backtracks:
  assumes "investigate w (k + 1) topic = Output r" and "analyse w (k + 1) r = Output a"
    and "k + 1 < MAX_ITERATIONS"
  shows "(spec_parse_verdict ''APROBADO'' ''RECHAZADO'' a = Rejected \<longrightarrow>
            iteration_body w sid (k + 1) topic tr =
              (after_analysis topic r a tr @ [BacktrackEvent (take 300 a)],
               Continue (topic @ '' (REFINAMIENTO: '' @ take 200 a @ '')''))
            \<and> run_loop w sid k topic tr =
                run_loop w sid (k + 1) (topic @ '' (REFINAMIENTO: '' @ take 200 a @ '')'')
                  (after_analysis topic r a tr @ [BacktrackEvent (take 300 a)]))
       \<and> (spec_parse_verdict ''APROBADO'' ''RECHAZADO'' a = Ambiguous \<longrightarrow>
            iteration_body w sid (k + 1) topic tr = (after_analysis topic r a tr, Continue topic)
            \<and> run_loop w sid k topic tr =
                run_loop w sid (k + 1) topic (after_analysis topic r a tr))"
proof -
  have k: "k < MAX_ITERATIONS" using assms(3) by simp
  note body = iteration_body_branches [OF assms(1) assms(2), of sid tr]
  have rej: "spec_parse_verdict ''APROBADO'' ''RECHAZADO'' a = Rejected \<Longrightarrow>
      iteration_body w sid (k + 1) topic tr =
              (after_analysis topic r a tr @ [BacktrackEvent (take 300 a)],
               Continue (topic @ '' (REFINAMIENTO: '' @ take 200 a @ '')''))"
    using body assms(3)
    by (simp add: rejected_branch_def on_backtracking_def refined_topic_def)
  have amb: "spec_parse_verdict ''APROBADO'' ''RECHAZADO'' a = Ambiguous \<Longrightarrow>
      iteration_body w sid (k + 1) topic tr = (after_analysis topic r a tr, Continue topic)"
    using body by simp
  have rej_loop: "spec_parse_verdict ''APROBADO'' ''RECHAZADO'' a = Rejected \<Longrightarrow>
      run_loop w sid k topic tr =
        run_loop w sid (k + 1) (topic @ '' (REFINAMIENTO: '' @ take 200 a @ '')'')
          (after_analysis topic r a tr @ [BacktrackEvent (take 300 a)])"
    using rej k by (subst run_loop.simps) simp
  have amb_loop: "spec_parse_verdict ''APROBADO'' ''RECHAZADO'' a = Ambiguous \<Longrightarrow>
      run_loop w sid k topic tr = run_loop w sid (k + 1) topic (after_analysis topic r a tr)"
    using amb k by (subst run_loop.simps) simp
  show ?thesis using rej amb rej_loop amb_loop by blast
qed

theorem rejection_backtracks_witness:
  "investigate rejecting_workers (0 + 1) ''tema'' = Output ''informe'' \<and>
   analyse rejecting_workers (0 + 1) ''informe'' = Output ''Veredicto: Rechazado, falta fuente oficial'' \<and>
   0 + 1 < MAX_ITERATIONS \<and>
   spec_parse_verdict ''APROBADO'' ''RECHAZADO'' ''Veredicto: Rechazado, falta fuente oficial'' = Rejected \<and>
   iteration_body rejecting_workers ''s1'' (0 + 1) ''tema'' [] =
     (after_analysis ''tema'' ''informe'' ''Veredicto: Rechazado, falta fuente oficial'' []
        @ [BacktrackEvent ''Veredicto: Rechazado, falta fuente oficial''],
      Continue ''tema (REFINAMIENTO: Veredicto: Rechazado, falta fuente oficial)'') \<and>
   investigate vague_workers (0 + 1) ''tema'' = Output ''informe'' \<and>
   analyse vague_workers (0 + 1) ''informe'' = Output ''sin veredicto'' \<and>
   spec_parse_verdict ''APROBADO'' ''RECHAZADO'' ''sin veredicto'' = Ambiguous \<and>
   iteration_body vague_workers ''s1'' (0 + 1) ''tema'' [] =
     (after_analysis ''tema'' ''informe'' ''sin veredicto'' [], Continue ''tema'')"
proof -
  have a: "investigate rejecting_workers (0 + 1) ''tema'' = Output ''informe''"
    and b: "analyse rejecting_workers (0 + 1) ''informe''
              = Output ''Veredicto: Rechazado, falta fuente oficial''"
    by (simp_all add: rejecting_workers_def)
  have a': "investigate vague_workers (0 + 1) ''tema'' = Output ''informe''"
    and b': "analyse vague_workers (0 + 1) ''informe'' = Output ''sin veredicto''"
    by (simp_all add: vague_workers_def)
  have c: "0 + 1 < MAX_ITERATIONS" by (simp add: MAX_ITERATIONS_def)
  show ?thesis
    using a b a' b' c verdict_rejected verdict_vague
      rejection_backtracks [OF a b c, of "''s1''" "[]"]
      rejection_backtracks [OF a' b' c, of "''s1''" "[]"]
    by simp
qed

text \<open>
  C2 as the specification words it fails for an Ambiguous verdict: the loop goes on
  without a backtrack event and with the same topic.
\<close>

theorem ambiguous_no_backtrack_counterexample:
  "investigate vague_workers 1 ''tema'' = Output ''informe'' \<and>
   analyse vague_workers 1 ''informe'' = Output ''sin veredicto'' \<and>
   spec_parse_verdict ''APROBADO'' ''RECHAZADO'' ''sin veredicto'' = Ambiguous \<and>
   1 < MAX_ITERATIONS \<and>
   iteration_body vague_workers ''s1'' 1 ''tema'' [] =
     ([AgentStart investigator_name ''Investigando: tema'',
       AgentFinish investigator_name ''informe'',
       AgentStart analyst_name ''Analizando reporte...'',
       AgentFinish analyst_name ''sin veredicto''],
      Continue ''tema'') \<and>
   \<not> list_ex is_backtrack (fst (iteration_body vague_workers ''s1'' 1 ''tema'' []))"
proof -
  have body: "iteration_body vague_workers ''s1'' 1 ''tema'' [] =
     ([AgentStart investigator_name ''Investigando: tema'',
       AgentFinish investigator_name ''informe'',
       AgentStart analyst_name ''Analizando reporte...'',
       AgentFinish analyst_name ''sin veredicto''],
      Continue ''tema'')"
    by (simp add: iteration_body_def vague_workers_def upper_vague Let_def
        on_agent_start_def on_agent_finish_def)
  have io: "investigate vague_workers 1 ''tema'' = Output ''informe''"
    "analyse vague_workers 1 ''informe'' = Output ''sin veredicto''"
    by (simp_all add: vague_workers_def)
  have more: "1 < MAX_ITERATIONS" by (simp add: MAX_ITERATIONS_def)
  have nb: "\<not> list_ex is_backtrack (fst (iteration_body vague_workers ''s1'' 1 ''tema'' []))"
    using body by simp
  show ?thesis using io more nb body verdict_vague by simp
qed

text \<open>
  C3. Every run begins at least one and at most \<open>MAX_ITERATIONS = 3\<close> cycles. Each cycle
  publishes one research start event, except that the last one publishes none when
  building the research stage raises. The loop is a total function: its termination is
  proved with the measure \<open>MAX_ITERATIONS - iteration\<close>.
\<close>

theorem cycles_bounded:
  "1 \<le> cycles (run w sid topic) \<and> cycles (run w sid topic) \<le> MAX_ITERATIONS
   \<and> MAX_ITERATIONS = 3
   \<and> research_starts (events (run w sid topic)) \<le> cycles (run w sid topic)
   \<and> cycles (run w sid topic) \<le> research_starts (events (run w sid topic)) + 1"
  using run_loop_cycles [of 0 w sid topic "[]"]
  by (simp add: run_def MAX_ITERATIONS_def research_starts_def)

text \<open>
  C4. When research and analysis return texts in all three iterations and every analysis
  is Rejected, the run ends with status \<open>error\<close>, an error message that ends with the
  analysis of the third iteration, and no article; three cycles were run and the writer
  was never started.
\<close>

theorem rejected_every_iteration_fails:
  assumes "investigate w 1 t1 = Output r1" and "analyse w 1 r1 = Output a1"
    and "spec_parse_verdict ''APROBADO'' ''RECHAZADO'' a1 = Rejected"
    and "investigate w 2 (refined_topic t1 a1) = Output r2" and "analyse w 2 r2 = Output a2"
    and "spec_parse_verdict ''APROBADO'' ''RECHAZADO'' a2 = Rejected"
    and "investigate w 3 (refined_topic (refined_topic t1 a1) a2) = Output r3"
    and "analyse w 3 r3 = Output a3"
    and "spec_parse_verdict ''APROBADO'' ''RECHAZADO'' a3 = Rejected"
  shows "dict_get (result (run w sid t1)) ''status'' = Some (PStr ''error'')
       \<and> dict_get (result (run w sid t1)) ''error'' =
           Some (PStr (''Contenido rechazado despu'' @ [CHR 0xE9] @ ''s de 3 intentos. ''
                        @ [CHR 0xDA] @ ''ltimo feedback: '' @ a3))
       \<and> dict_get (result (run w sid t1)) ''article'' = None
       \<and> cycles (run w sid t1) = 3
       \<and> \<not> list_ex (is_agent_start writer_name) (events (run w sid t1))"
proof -
  let ?t2 = "refined_topic t1 a1"
  let ?t3 = "refined_topic ?t2 a2"
  let ?e1 = "on_backtracking a1 (after_analysis t1 r1 a1 [])"
  let ?e2 = "on_backtracking a2 (after_analysis ?t2 r2 a2 ?e1)"
  let ?e3 = "after_analysis ?t3 r3 a3 ?e2"
  have b1: "iteration_body w sid (Suc 0) t1 [] = (?e1, Continue ?t2)"
    using iteration_body_branches [of w 1 t1 r1 a1 sid "[]"] assms(1,2,3)
    by (simp add: rejected_branch_def MAX_ITERATIONS_def)
  have b2: "iteration_body w sid (Suc (Suc 0)) ?t2 ?e1 = (?e2, Continue ?t3)"
    using iteration_body_branches [of w 2 ?t2 r2 a2 sid ?e1] assms(4,5,6)
    by (simp add: rejected_branch_def MAX_ITERATIONS_def numeral_2_eq_2)
  have b3: "iteration_body w sid (Suc (Suc (Suc 0))) ?t3 ?e2 =
      (?e3, Return [(''status'', PStr ''error''), (''topic'', PStr ?t3),
                    (''error'', PStr (rejected_error_msg a3)), (''session_id'', PStr sid)])"
    using iteration_body_branches [of w 3 ?t3 r3 a3 sid ?e2] assms(7,8,9)
    by (simp add: rejected_branch_def MAX_ITERATIONS_def numeral_3_eq_3)
  have l3: "run_loop w sid (Suc (Suc 0)) ?t3 ?e2 =
      \<lparr>result = [(''status'', PStr ''error''), (''topic'', PStr ?t3),
                 (''error'', PStr (rejected_error_msg a3)), (''session_id'', PStr sid)],
       events = ?e3, cycles = 3\<rparr>"
    by (rule trans [OF run_loop_return [OF _ b3]]) (simp_all add: MAX_ITERATIONS_def)
  have l2: "run_loop w sid (Suc 0) ?t2 ?e1 = run_loop w sid (Suc (Suc 0)) ?t3 ?e2"
    by (rule run_loop_continue [OF _ b2]) (simp add: MAX_ITERATIONS_def)
  have l1: "run_loop w sid 0 t1 [] = run_loop w sid (Suc 0) ?t2 ?e1"
    by (rule run_loop_continue [OF _ b1]) (simp add: MAX_ITERATIONS_def)
  have r: "run w sid t1 =
      \<lparr>result = [(''status'', PStr ''error''), (''topic'', PStr ?t3),
                 (''error'', PStr (rejected_error_msg a3)), (''session_id'', PStr sid)],
       events = ?e3, cycles = 3\<rparr>"
    by (simp add: run_def l1 l2 l3)
  have nw: "filter (is_agent_start writer_name) ?e3 = []"
    by (simp add: after_analysis_no_writer on_backtracking_def)
  have "\<not> list_ex (is_agent_start writer_name) ?e3"
    using nw by (simp add: list_ex_iff filter_empty_conv)
  then show ?thesis
    by (simp add: r dict_get_def rejected_error_msg_text)
qed

theorem rejected_every_iteration_fails_witness:
  "spec_parse_verdict ''APROBADO'' ''RECHAZADO'' ''Veredicto: Rechazado, falta fuente oficial''
     = Rejected
   \<and> dict_get (result (run rejecting_workers ''s1'' ''tema'')) ''status'' = Some (PStr ''error'')
   \<and> dict_get (result (run rejecting_workers ''s1'' ''tema'')) ''error'' =
       Some (PStr (''Contenido rechazado despu'' @ [CHR 0xE9] @ ''s de 3 intentos. ''
                    @ [CHR 0xDA] @ ''ltimo feedback: ''
                    @ ''Veredicto: Rechazado, falta fuente oficial''))
   \<and> dict_get (result (run rejecting_workers ''s1'' ''tema'')) ''article'' = None
   \<and> cycles (run rejecting_workers ''s1'' ''tema'') = 3"
proof -
  let ?a = "''Veredicto: Rechazado, falta fuente oficial''"
  have i: "\<And>k t. investigate rejecting_workers k t = Output ''informe''"
    and a: "\<And>k r. analyse rejecting_workers k r = Output ?a"
    by (simp_all add: rejecting_workers_def)
  show ?thesis
    using verdict_rejected
      rejected_every_iteration_fails [OF i a verdict_rejected i a verdict_rejected
        i a verdict_rejected, where sid = "''s1''" and ?t1.0 = "''tema''"]
    by simp
qed

text \<open>
  C7 (amended). The dictionary returned by a run either has status \<open>success\<close>, an
  \<open>article\<close> entry holding a text the writer returned, and no \<open>error\<close> entry; or it has
  status \<open>error\<close>, an \<open>error\<close> entry with a non-empty message, and no \<open>article\<close> entry.
\<close>

theorem terminal_result_fields:
  "(dict_get (result (run w sid topic)) ''status'' = Some (PStr ''success'')
      \<and> (\<exists>art k ir ar. dict_get (result (run w sid topic)) ''article'' = Some (PStr art)
             \<and> write_article w k ir ar = Output art)
      \<and> dict_get (result (run w sid topic)) ''error'' = None)
   \<or> (dict_get (result (run w sid topic)) ''status'' = Some (PStr ''error'')
      \<and> (\<exists>m. dict_get (result (run w sid topic)) ''error'' = Some (PStr m) \<and> m \<noteq> [])
      \<and> dict_get (result (run w sid topic)) ''article'' = None)"
  using run_loop_shape [of w sid 0 topic "[]"] by (simp add: run_def result_shape_def)

theorem terminal_result_fields_witness:
  "dict_get (result (run empty_article_workers ''s1'' ''tema'')) ''status'' = Some (PStr ''success'')
   \<and> dict_get (result (run empty_article_workers ''s1'' ''tema'')) ''error'' = None"
  using terminal_result_fields [of empty_article_workers "''s1''" "''tema''"]
  by (simp add: empty_article_run dict_get_def)

text \<open>
  C7 as the specification words it asks for a non-empty article. The run returns what
  the writer returned, without a test: a writer that returns the empty text gives a
  success result whose article is empty.
\<close>

theorem empty_article_counterexample:
  "dict_get (result (run empty_article_workers ''s1'' ''tema'')) ''status'' = Some (PStr ''success'')
   \<and> dict_get (result (run empty_article_workers ''s1'' ''tema'')) ''article'' = Some (PStr [])"
  by (simp add: empty_article_run dict_get_def)

section \<open>Properties of the markdown post-processor\<close>

lemma lead_newlines_simps:
  "lead_newlines [] = 0"
  "lead_newlines (c # s) = (if c = newline then Suc (lead_newlines s) else 0)"
  by (simp_all add: lead_newlines_def)

lemma starts_with_three_newlines:
  "starts_with s [newline, newline, newline] = (3 \<le> lead_newlines s)"
proof (cases s)
  case Nil
  then show ?thesis by (simp add: lead_newlines_simps)
next
  case s1: (Cons a t)
  show ?thesis
  proof (cases t)
    case Nil
    then show ?thesis using s1 by (simp add: lead_newlines_simps)
  next
    case t1: (Cons b u)
    show ?thesis
    proof (cases u)
      case Nil
      then show ?thesis using s1 t1 by (simp add: lead_newlines_simps)
    next
      case (Cons c v)
      then show ?thesis using s1 t1 by (auto simp: lead_newlines_simps)
    qed
  qed
qed

lemma lead_newlines_dropWhile: "lead_newlines (dropWhile (\<lambda>x. x = newline) s) = 0"
  by (induction s) (simp_all add: lead_newlines_simps)

lemma squeeze_newlines_lead:
  "lead_newlines (squeeze_newlines s) = (if 3 \<le> lead_newlines s then 2 else lead_newlines s)"
proof (induction s rule: squeeze_newlines.induct)
  case 1
  show ?case by (simp add: lead_newlines_simps)
next
  case (2 c s)
  show ?case
  proof (cases "3 \<le> length (takeWhile (\<lambda>x. x = newline) (c # s))")
    case True
    have "lead_newlines (squeeze_newlines (dropWhile (\<lambda>x. x = newline) (c # s))) = 0"
      using "2.IH"(1) [OF True] lead_newlines_dropWhile [of "c # s"] by simp
    moreover have "3 \<le> lead_newlines (c # s)" using True by (simp add: lead_newlines_def)
    ultimately show ?thesis using True by (simp add: lead_newlines_simps)
  next
    case False
    then have small: "\<not> 3 \<le> lead_newlines (c # s)" by (simp add: lead_newlines_def)
    show ?thesis
    proof (cases "c = newline")
      case True
      then have "\<not> 3 \<le> lead_newlines s" using small by (simp add: lead_newlines_simps)
      then have "lead_newlines (squeeze_newlines s) = lead_newlines s"
        using "2.IH"(2) [OF False] by simp
      then show ?thesis using False small True by (simp add: lead_newlines_simps)
    next
      case cn: False
      then show ?thesis using False by (simp add: lead_newlines_simps)
    qed
  qed
qed

lemma squeeze_newlines_no_start:
  "\<not> starts_with (squeeze_newlines s) [newline, newline, newline]"
  by (simp add: starts_with_three_newlines squeeze_newlines_lead)

lemma squeeze_newlines_no_triple:
  "\<not> contains [newline, newline, newline] (squeeze_newlines s)"
proof (induction s rule: squeeze_newlines.induct)
  case 1
  show ?case by simp
next
  case (2 c s)
  show ?case
  proof (cases "3 \<le> length (takeWhile (\<lambda>x. x = newline) (c # s))")
    case True
    let ?r = "squeeze_newlines (dropWhile (\<lambda>x. x = newline) (c # s))"
    have r0: "lead_newlines ?r = 0"
      using squeeze_newlines_lead [of "dropWhile (\<lambda>x. x = newline) (c # s)"]
        lead_newlines_dropWhile [of "c # s"] by simp
    have a: "\<not> starts_with (newline # newline # ?r) [newline, newline, newline]"
      unfolding starts_with_three_newlines using r0 by (simp add: lead_newlines_simps)
    have b: "\<not> starts_with (newline # ?r) [newline, newline, newline]"
      unfolding starts_with_three_newlines using r0 by (simp add: lead_newlines_simps)
    have c: "\<not> contains [newline, newline, newline] ?r" using "2.IH"(1) [OF True] .
    have "squeeze_newlines (c # s) = newline # newline # ?r" using True by simp
    then show ?thesis using a b c by (simp del: starts_with.simps squeeze_newlines.simps)
  next
    case False
    have a: "\<not> starts_with (squeeze_newlines (c # s)) [newline, newline, newline]"
      by (rule squeeze_newlines_no_start)
    have eq: "squeeze_newlines (c # s) = c # squeeze_newlines s" using False by simp
    have "\<not> contains [newline, newline, newline] (squeeze_newlines s)"
      using "2.IH"(2) [OF False] .
    then show ?thesis using a unfolding eq by (simp del: starts_with.simps)
  qed
qed

text \<open>
  C10. \<open>format_news_article\<close> is a total function and its output never contains three
  consecutive newline characters; the empty text gives the empty text.
\<close>

theorem format_never_three_newlines:
  "\<not> contains [CHR 0x0A, CHR 0x0A, CHR 0x0A] (format_news_article raw_text)
   \<and> format_news_article [] = []"
proof -
  have "\<not> contains [newline, newline, newline] (format_news_article raw_text)"
  proof (cases "raw_text = []")
    case True
    then show ?thesis by (simp add: format_news_article_def)
  next
    case False
    then show ?thesis
      by (simp add: format_news_article_def Let_def squeeze_newlines_no_triple
          del: contains.simps)
  qed
  then show ?thesis by (simp add: newline_def format_news_article_def)
qed

section \<open>Properties of the submission endpoint\<close>

lemma rejected_unchanged:
  assumes "\<not> truthy data \<or> has_topic data = Inr False
           \<or> (\<exists>t. get_topic data = Inr (JStr t) \<and> strip t = [])"
  shows "resp_code (fst (generate_article env (Inr data) st)) = 400
       \<and> dict_get (resp_body (fst (generate_article env (Inr data) st))) ''session_id'' = None
       \<and> snd (generate_article env (Inr data) st) = st"
proof (cases "truthy data")
  case False
  then show ?thesis
    by (simp add: generate_article_def error_response_def dict_get_def)
next
  case True
  show ?thesis
  proof (cases "has_topic data = Inr False")
    case nokey: True
    then show ?thesis using True
      by (simp add: generate_article_def error_response_def dict_get_def)
  next
    case False
    then obtain t where t: "get_topic data = Inr (JStr t)" "strip t = []"
      using assms True by blast
    then obtain kvs where d: "data = JObj kvs" "map_of kvs ''topic'' = Some (JStr t)"
      by (cases data) (auto split: option.splits)
    show ?thesis using True t d
      by (simp add: generate_article_def error_response_def dict_get_def)
  qed
qed

lemma accepted_registers:
  assumes "map_of kvs ''topic'' = Some (JStr t)" and "strip t \<noteq> []"
  shows "generate_article env (Inr (JObj kvs)) st =
           (\<lparr>resp_body = [(''status'', PStr ''started''), (''session_id'', PStr (uuid4 env)),
                     (''topic'', PStr (strip t)), (''message'', PStr started_msg)],
             resp_code = 202\<rparr>,
            st\<lparr>active_sessions :=
                  (active_sessions st)(uuid4 env \<mapsto>
                     \<lparr>s_topic = strip t, s_started_at = now env, s_status = ''running''\<rparr>),
                threads := threads st @ [(strip t, uuid4 env)]\<rparr>)"
proof -
  have "kvs \<noteq> []" using assms(1) by auto
  then show ?thesis using assms by (simp add: generate_article_def)
qed

lemma not_accepted_unchanged:
  assumes "resp_code (fst (generate_article env request st)) \<noteq> 202"
  shows "snd (generate_article env request st) = st
       \<and> dict_get (resp_body (fst (generate_article env request st))) ''session_id'' = None"
  using assms
  by (auto simp: generate_article_def error_response_def dict_get_def
      split: sum.splits bool.splits if_splits)

text \<open>
  C8. A request whose document is empty or missing, has no \<open>topic\<close> entry, or has a topic
  that is empty after stripping white space is answered with status 400: the body has no
  \<open>session_id\<close> and the registry and the threads are unchanged. A request whose topic is
  a text that is not empty after stripping is answered with status 202 and the new
  session id, and the session is registered as running. Any answer other than 202 leaves
  the registry unchanged and carries no session id.
\<close>

theorem empty_topic_rejected:
  "((\<not> truthy data \<or> has_topic data = Inr False
      \<or> (\<exists>t. get_topic data = Inr (JStr t) \<and> strip t = []))
     \<longrightarrow> resp_code (fst (generate_article env (Inr data) st)) = 400
         \<and> dict_get (resp_body (fst (generate_article env (Inr data) st))) ''session_id'' = None
         \<and> snd (generate_article env (Inr data) st) = st)
   \<and> (map_of kvs ''topic'' = Some (JStr t) \<and> strip t \<noteq> []
     \<longrightarrow> resp_code (fst (generate_article env (Inr (JObj kvs)) st)) = 202
         \<and> dict_get (resp_body (fst (generate_article env (Inr (JObj kvs)) st))) ''session_id''
             = Some (PStr (uuid4 env))
         \<and> dict_get (resp_body (fst (generate_article env (Inr (JObj kvs)) st))) ''topic''
             = Some (PStr (strip t))
         \<and> active_sessions (snd (generate_article env (Inr (JObj kvs)) st))
             = (active_sessions st)(uuid4 env \<mapsto>
                  \<lparr>s_topic = strip t, s_started_at = now env, s_status = ''running''\<rparr>)
         \<and> threads (snd (generate_article env (Inr (JObj kvs)) st))
             = threads st @ [(strip t, uuid4 env)])
   \<and> (resp_code (fst (generate_article env request st)) \<noteq> 202
     \<longrightarrow> snd (generate_article env request st) = st
         \<and> dict_get (resp_body (fst (generate_article env request st))) ''session_id'' = None)"
proof (intro conjI impI)
  assume h: "\<not> truthy data \<or> has_topic data = Inr False
      \<or> (\<exists>t. get_topic data = Inr (JStr t) \<and> strip t = [])"
  note r = rejected_unchanged [OF h, of env st]
  show "resp_code (fst (generate_article env (Inr data) st)) = 400" using r by blast
  show "dict_get (resp_body (fst (generate_article env (Inr data) st))) ''session_id'' = None"
    using r by blast
  show "snd (generate_article env (Inr data) st) = st" using r by blast
next
  assume h: "map_of kvs ''topic'' = Some (JStr t) \<and> strip t \<noteq> []"
  then have a: "map_of kvs ''topic'' = Some (JStr t)" and b: "strip t \<noteq> []" by simp_all
  note r = accepted_registers [OF a b, of env st]
  show "resp_code (fst (generate_article env (Inr (JObj kvs)) st)) = 202" by (simp add: r)
  show "dict_get (resp_body (fst (generate_article env (Inr (JObj kvs)) st))) ''session_id''
             = Some (PStr (uuid4 env))" by (simp add: r dict_get_def)
  show "dict_get (resp_body (fst (generate_article env (Inr (JObj kvs)) st))) ''topic''
             = Some (PStr (strip t))" by (simp add: r dict_get_def)
  show "active_sessions (snd (generate_article env (Inr (JObj kvs)) st))
             = (active_sessions st)(uuid4 env \<mapsto>
                  \<lparr>s_topic = strip t, s_started_at = now env, s_status = ''running''\<rparr>)"
    by (simp add: r)
  show "threads (snd (generate_article env (Inr (JObj kvs)) st))
             = threads st @ [(strip t, uuid4 env)]" by (simp add: r)
next
  assume h: "resp_code (fst (generate_article env request st)) \<noteq> 202"
  note r = not_accepted_unchanged [OF h]
  show "snd (generate_article env request st) = st" using r by blast
  show "dict_get (resp_body (fst (generate_article env request st))) ''session_id'' = None"
    using r by blast
qed

lemma strip_blank: "strip ''   '' = []"
  by (simp add: strip_def is_space_def chr_code_def)

lemma strip_topic: "strip '' IA en salud '' = ''IA en salud''"
  by (simp add: strip_def is_space_def chr_code_def)

theorem empty_topic_rejected_witness:
  "get_topic (JObj [(''topic'', JStr ''   '')]) = Inr (JStr ''   '') \<and> strip ''   '' = []
   \<and> resp_code (fst (generate_article demo_env (Inr (JObj [(''topic'', JStr ''   '')])) empty_state)) = 400
   \<and> snd (generate_article demo_env (Inr (JObj [(''topic'', JStr ''   '')])) empty_state) = empty_state
   \<and> map_of [(''topic'', JStr '' IA en salud '')] ''topic'' = Some (JStr '' IA en salud '')
   \<and> strip '' IA en salud '' \<noteq> []
   \<and> resp_code (fst (generate_article demo_env (Inr (JObj [(''topic'', JStr '' IA en salud '')])) empty_state)) = 202
   \<and> dict_get (resp_body (fst (generate_article demo_env
         (Inr (JObj [(''topic'', JStr '' IA en salud '')])) empty_state))) ''session_id''
       = Some (PStr ''id-1'')
   \<and> resp_code (fst (generate_article demo_env (Inl (GetJsonError ''bad json'')) empty_state)) \<noteq> 202
   \<and> snd (generate_article demo_env (Inl (GetJsonError ''bad json'')) empty_state) = empty_state"
proof -
  have g: "get_topic (JObj [(''topic'', JStr ''   '')]) = Inr (JStr ''   '')" by simp
  have h1: "\<not> truthy (JObj [(''topic'', JStr ''   '')])
      \<or> has_topic (JObj [(''topic'', JStr ''   '')]) = Inr False
      \<or> (\<exists>t. get_topic (JObj [(''topic'', JStr ''   '')]) = Inr (JStr t) \<and> strip t = [])"
    using g strip_blank by blast
  have h2: "map_of [(''topic'', JStr '' IA en salud '')] ''topic'' = Some (JStr '' IA en salud '')
      \<and> strip '' IA en salud '' \<noteq> []"
    by (simp add: strip_topic)
  have h3: "resp_code (fst (generate_article demo_env (Inl (GetJsonError ''bad json'')) empty_state)) \<noteq> 202"
    by (simp add: generate_article_def error_response_def)
  have u: "uuid4 demo_env = ''id-1''" by (simp add: demo_env_def)
  show ?thesis
    using g strip_blank h1 h2 h3 u
      empty_topic_rejected [of "JObj [(''topic'', JStr ''   '')]" demo_env empty_state
        "[(''topic'', JStr '' IA en salud '')]" "'' IA en salud ''"
        "Inl (GetJsonError ''bad json'')"]
    by simp
qed

end
